theory Spec2Isabelle
  imports Main "HOL-Library.Sublist"
begin

section \<open>Data model of \<open>lib/structures/Message.ts\<close>\<close>

text \<open>
  Objects are held in a store and named by their address, so that "the same instance"
  is equality of addresses and an in-place mutation is an update of the store at one
  address.
\<close>

type_synonym ref = nat

text \<open>
  The number returned by \<open>Date.parse\<close>: a count of milliseconds, or \<open>NaN\<close>.
\<close>

datatype timestamp = NaN | Millis int

text \<open>
  One key of a partial payload object. \<open>Absent\<close>: the key is not in the object
  (\<open>"k" in data\<close> is false). \<open>Undefined\<close>: the key is in the object and its value is
  \<open>undefined\<close>. \<open>Present v\<close>: the key is in the object with the value \<open>v\<close>.
\<close>

datatype 'a entry = Absent | Undefined | Present 'a

text \<open>
  \<open>enum MessageType { Default, System }\<close>
\<close>

datatype MessageType = Default | System

text \<open>
  Modelled from the spec: the class \<open>Embed\<close> of \<open>./Embed\<close> is missing from the
  sources. By the spec, an update replaces the embeds "with freshly constructed embed
  objects from the raw array": an embed object is the constructor \<open>new Embed(x)\<close>
  applied to its raw embed payload \<open>x\<close>.
\<close>

datatype 'ep Embed = Embed 'ep

text \<open>
  The fields of a \<open>Message\<close> object. \<open>client\<close> and \<open>id_Base\<close> (the source's \<open>id\<close>) are
  the two fields inherited from the class \<open>Base\<close> of \<open>./Base\<close>, which is missing from
  the sources and of which the spec says that it holds "a reference to the owning
  client context" and "an identity field"; \<open>createdAt_ms\<close>, \<open>updatedAt_ms\<close> and
  \<open>deletedAt_ms\<close> are the source's \<open>_createdAt\<close>, \<open>_updatedAt\<close> and \<open>_deletedAt\<close>.
  A field of type \<open>T | null\<close> is a \<open>T option\<close>, with \<open>None\<close> for \<open>null\<close>; the optional
  field \<open>mentions\<close> is an option too, with \<open>None\<close> for \<open>undefined\<close>. The type \<open>'mn\<close> is
  \<open>MentionsPayload\<close> and \<open>'ep\<close> the raw embed payload, both of the package
  \<open>@guildedjs/api\<close>.
\<close>

record ('mn, 'ep) Message =
  client :: ref
  id_Base :: string
  channelId :: string
  serverId :: "string option"
  groupId :: "string option"
  msg_type :: MessageType
  content :: string
  mentions :: "'mn option"
  replyMessageIds :: "string list"
  isPrivate :: bool
  isSilent :: bool
  createdById :: string
  isReply :: bool
  createdByWebhookId :: "string option"
  createdAt_ms :: timestamp
  updatedAt_ms :: "timestamp option"
  deleted :: bool
  deletedAt_ms :: "timestamp option"
  embeds :: "'ep Embed list"

text \<open>
  The argument of \<open>_update\<close>, of type
  \<open>Partial<ChatMessagePayload> | { deletedAt: string }\<close>: the five keys that the
  method reads. The record is extensible, and \<open>_update\<close> is defined on every extension
  of it: the other keys that a payload carries (\<open>id\<close>, \<open>channelId\<close>, ...) are in the
  extension, where the method does not look. \<open>deletedAt\<close> is a \<open>string\<close> whenever the
  key is there, by the second member of the union.
\<close>

record ('mn, 'ep) payload =
  p_content :: "string entry"
  p_mentions :: "'mn entry"
  p_updatedAt :: "string entry"
  p_deletedAt :: "string option"
  p_embeds :: "'ep list entry"

text \<open>
  Modelled from the spec: the class \<open>Client\<close> of \<open>./Client\<close> and the managers are
  missing from the sources. By the spec a manager is "one mapping-from-key-to-entity
  per entity type", with the lookup \<open>get(key) -> Entity | absent\<close>. These are the
  four caches that the accessors of \<open>Message\<close> read (\<open>client.users.cache\<close>,
  \<open>client.members.cache\<close>, \<open>client.channels.cache\<close>, \<open>client.servers.cache\<close>), each
  from a string key to the address of the cached object.
\<close>

record Client =
  users_cache :: "string \<rightharpoonup> ref"
  members_cache :: "string \<rightharpoonup> ref"
  channels_cache :: "string \<rightharpoonup> ref"
  servers_cache :: "string \<rightharpoonup> ref"

text \<open>
  A request handed to the transport layer: the arguments of
  \<open>client.messages.update(channelId, messageId, content)\<close>. The type \<open>'c\<close> is
  \<open>MessageContent\<close>.
\<close>

datatype 'c request = UpdateMessage string string 'c

text \<open>
  The state of the process: the \<open>Message\<close> objects and the \<open>Client\<close> objects by
  address, and the requests that have been handed to the transport layer, oldest
  first.
\<close>

record ('mn, 'ep, 'c) world =
  messages :: "ref \<Rightarrow> ('mn, 'ep) Message"
  clients :: "ref \<Rightarrow> Client"
  outbox :: "'c request list"

section \<open>\<open>Message._update\<close>\<close>

text \<open>
  JavaScript's \<open>ToBoolean\<close> on a string: only the empty string is falsy.
\<close>

definition truthy :: "string \<Rightarrow> bool" where
  "truthy s = (s \<noteq> [])"

text \<open>
  \<open>_update(data)\<close> on the object at address \<open>this\<close>. The five \<open>if\<close> statements of the
  source run in order on the fields of the object; the result is \<open>this\<close> and the store
  with the object replaced at its address. \<open>Date_parse\<close> is the \<open>Date.parse\<close> of the
  JavaScript runtime.
\<close>

definition update_Message ::
  "(string \<Rightarrow> timestamp) \<Rightarrow> ref \<Rightarrow> ('mn, 'ep, 'z) payload_scheme \<Rightarrow>
     ('mn, 'ep, 'c) world \<Rightarrow> ref \<times> ('mn, 'ep, 'c) world" where
  "update_Message Date_parse this data w =
     (let m0 = messages w this;
          \<comment> \<open>\<open>if ('content' in data && typeof data.content !== 'undefined')\<close>\<close>
          m1 = (case p_content data of
                  Present c \<Rightarrow> m0\<lparr>content := c\<rparr>
                | _ \<Rightarrow> m0);
          \<comment> \<open>\<open>if ('mentions' in data) this.mentions = data.mentions\<close>\<close>
          m2 = (case p_mentions data of
                  Absent \<Rightarrow> m1
                | Undefined \<Rightarrow> m1\<lparr>mentions := None\<rparr>
                | Present v \<Rightarrow> m1\<lparr>mentions := Some v\<rparr>);
          \<comment> \<open>\<open>if ('updatedAt' in data)\<close>, then
              \<open>data.updatedAt ? Date.parse(data.updatedAt) : null\<close>\<close>
          m3 = (case p_updatedAt data of
                  Absent \<Rightarrow> m2
                | Undefined \<Rightarrow> m2\<lparr>updatedAt_ms := None\<rparr>
                | Present s \<Rightarrow>
                    m2\<lparr>updatedAt_ms := (if truthy s then Some (Date_parse s) else None)\<rparr>);
          \<comment> \<open>\<open>if ('deletedAt' in data)\<close>: \<open>deleted = true\<close>, then
              \<open>_deletedAt = Date.parse(data.deletedAt)\<close>\<close>
          m4 = (case p_deletedAt data of
                  None \<Rightarrow> m3
                | Some s \<Rightarrow> m3\<lparr>deleted := True, deletedAt_ms := Some (Date_parse s)\<rparr>);
          \<comment> \<open>\<open>if ('embeds' in data)\<close>, then
              \<open>data.embeds?.map((x) => new Embed(x)) ?? []\<close>\<close>
          m5 = (case p_embeds data of
                  Absent \<Rightarrow> m4
                | Undefined \<Rightarrow> m4\<lparr>embeds := []\<rparr>
                | Present xs \<Rightarrow> m4\<lparr>embeds := map Embed xs\<rparr>)
      \<comment> \<open>\<open>return this\<close>\<close>
      in (this, w\<lparr>messages := (messages w)(this := m5)\<rparr>))"

section \<open>Derived accessors\<close>

text \<open>
  \<open>get url()\<close>: \<open>if (!this.serverId) return ""\<close>, then the template literal. The
  test is JavaScript's truthiness: \<open>null\<close> and the empty string are both falsy.
\<close>

definition url :: "('mn, 'ep) Message \<Rightarrow> string" where
  "url m =
     (case serverId m of
        None \<Rightarrow> []
      | Some s \<Rightarrow>
          if \<not> truthy s then []
          else ''https://www.guilded.gg/chat/'' @ channelId m @ ''?messageId='' @ id_Base m)"

text \<open>
  \<open>get authorId()\<close>: \<open>this.createdByWebhookId ?? this.createdById\<close>.
\<close>

definition authorId :: "('mn, 'ep) Message \<Rightarrow> string" where
  "authorId m =
     (case createdByWebhookId m of
        None \<Rightarrow> createdById m
      | Some wid \<Rightarrow> wid)"

section \<open>Relationship accessors\<close>

text \<open>
  Each accessor takes the address of \<open>this\<close> and the state, and returns its result with
  the state it leaves. \<open>cache.get(k) ?? null\<close> is the entry of the map at \<open>k\<close>, with
  \<open>None\<close> (the source's \<open>null\<close>) where the map has none.
\<close>

definition author ::
  "ref \<Rightarrow> ('mn, 'ep, 'c) world \<Rightarrow> ref option \<times> ('mn, 'ep, 'c) world" where
  "author this w =
     (let m = messages w this
      in (users_cache (clients w (client m)) (createdById m), w))"

text \<open>
  \<open>get member()\<close>. \<open>buildMemberKey\<close> is imported from \<open>../util\<close> and is an argument
  here.
\<close>

definition member_Message ::
  "(string \<Rightarrow> string \<Rightarrow> string) \<Rightarrow> ref \<Rightarrow> ('mn, 'ep, 'c) world \<Rightarrow>
     ref option \<times> ('mn, 'ep, 'c) world" where
  "member_Message buildMemberKey this w =
     (let m = messages w this
      in ((case serverId m of
             None \<Rightarrow> None
           | Some s \<Rightarrow>
               if truthy s
               then members_cache (clients w (client m)) (buildMemberKey s (authorId m))
               else None), w))"

definition channel ::
  "ref \<Rightarrow> ('mn, 'ep, 'c) world \<Rightarrow> ref option \<times> ('mn, 'ep, 'c) world" where
  "channel this w =
     (let m = messages w this
      in (channels_cache (clients w (client m)) (channelId m), w))"

definition server ::
  "ref \<Rightarrow> ('mn, 'ep, 'c) world \<Rightarrow> ref option \<times> ('mn, 'ep, 'c) world" where
  "server this w =
     (let m = messages w this
      in ((case serverId m of
             None \<Rightarrow> None
           | Some s \<Rightarrow>
               if truthy s then servers_cache (clients w (client m)) s else None), w))"

section \<open>\<open>Message.edit\<close>\<close>

text \<open>
  A promise, by the way it settles: it stays pending for ever, it is fulfilled with a
  value, or it is rejected with a reason.
\<close>

datatype 'a promise = Pending | Fulfilled 'a | Rejected string

text \<open>
  \<open>p.then(f)\<close> with a callback that does not throw.
\<close>

fun then_promise :: "('a \<Rightarrow> 'b) \<Rightarrow> 'a promise \<Rightarrow> 'b promise" where
  "then_promise f Pending = Pending"
| "then_promise f (Fulfilled x) = Fulfilled (f x)"
| "then_promise f (Rejected e) = Rejected e"

text \<open>
  \<open>edit(newContent)\<close>:
  \<open>this.client.messages.update(this.channelId, this.id, newContent).then(() => this)\<close>.
  The method \<open>update\<close> of the message manager of the client is an argument: it
  receives the address of the client and the three arguments of the call, and returns
  its promise and the state after the call.
\<close>

definition edit ::
  "(ref \<Rightarrow> string \<Rightarrow> string \<Rightarrow> 'c \<Rightarrow> ('mn, 'ep, 'c) world \<Rightarrow>
      'r promise \<times> ('mn, 'ep, 'c) world) \<Rightarrow>
   ref \<Rightarrow> 'c \<Rightarrow> ('mn, 'ep, 'c) world \<Rightarrow> ref promise \<times> ('mn, 'ep, 'c) world" where
  "edit manager_update this newContent w =
     (let m = messages w this;
          (p, w') = manager_update (client m) (channelId m) (id_Base m) newContent w
      in (then_promise (\<lambda>_. this) p, w'))"

section \<open>The parts of the program that are outside \<open>Message.ts\<close>\<close>

text \<open>
  Modelled from the spec: the message manager (\<open>client.messages\<close>) and the transport
  behind it are missing from the sources. By the outbound action interface of the
  spec, \<open>update(channelId, messageId, content)\<close> hands the request to the transport
  and returns a future; by its action-method contract, nothing on this path writes to
  a cached entity. The first argument is the way the transport settles the future.
\<close>

definition manager_update ::
  "'r promise \<Rightarrow> ref \<Rightarrow> string \<Rightarrow> string \<Rightarrow> 'c \<Rightarrow> ('mn, 'ep, 'c) world \<Rightarrow>
     'r promise \<times> ('mn, 'ep, 'c) world" where
  "manager_update settles c chan mid newContent w =
     (settles, w\<lparr>outbox := outbox w @ [UpdateMessage chan mid newContent]\<rparr>)"

text \<open>
  Modelled from the spec: \<open>buildMemberKey\<close> of \<open>../util\<close> is missing from the sources.
  By the spec it is a stable concatenation of the server id and the user id with a
  separator.
\<close>

definition buildMemberKey :: "string \<Rightarrow> string \<Rightarrow> string" where
  "buildMemberKey sid uid = sid @ '':'' @ uid"

section \<open>Sequences of update events\<close>

text \<open>
  Update events delivered in order, each to the \<open>_update\<close> of the object at its
  address.
\<close>

fun apply_updates ::
  "(string \<Rightarrow> timestamp) \<Rightarrow> (ref \<times> ('mn, 'ep, 'z) payload_scheme) list \<Rightarrow>
     ('mn, 'ep, 'c) world \<Rightarrow> ('mn, 'ep, 'c) world" where
  "apply_updates Date_parse [] w = w"
| "apply_updates Date_parse ((r, d) # evs) w =
     apply_updates Date_parse evs (snd (update_Message Date_parse r d w))"

section \<open>\<open>Date.parse\<close> on the date-time string format\<close>

text \<open>
  \<open>Date.parse\<close> belongs to the JavaScript runtime, and the theorems on \<open>_update\<close> hold
  for every function in its place. For the examples, this is the \<open>Date.parse\<close> of
  Node on strings of the complete UTC form \<open>YYYY-MM-DDTHH:mm:ss.sssZ\<close> of the
  ECMAScript date-time string format, with the day and time arithmetic of the
  ECMAScript specification (\<open>DayFromYear\<close>, \<open>MakeDay\<close>, \<open>MakeTime\<close>, \<open>MakeDate\<close>): the
  month is 01 to 12, the day 01 to 31 whatever the month (a day past the end of the
  month runs into the next month), the hour 00 to 23, or 24 with the rest of the
  time zero. On strings of every other form it answers \<open>NaN\<close>, which the runtime does
  not always do: the other forms are not modelled, and it is applied below to
  strings of the complete form only, which name valid calendar dates.
\<close>

definition digit_val :: "char \<Rightarrow> int option" where
  "digit_val c =
     (let n = (of_char c :: nat)
      in if 48 \<le> n \<and> n \<le> 57 then Some (int n - 48) else None)"

fun decimal_from :: "int \<Rightarrow> string \<Rightarrow> int option" where
  "decimal_from a [] = Some a"
| "decimal_from a (c # cs) =
     (case digit_val c of
        None \<Rightarrow> None
      | Some d \<Rightarrow> decimal_from (10 * a + d) cs)"

definition InLeapYear :: "int \<Rightarrow> bool" where
  "InLeapYear y = (y mod 4 = 0 \<and> (y mod 100 \<noteq> 0 \<or> y mod 400 = 0))"

definition DayFromYear :: "int \<Rightarrow> int" where
  "DayFromYear y =
     365 * (y - 1970) + (y - 1969) div 4 - (y - 1901) div 100 + (y - 1601) div 400"

definition month_lengths :: "int \<Rightarrow> int list" where
  "month_lengths y =
     [31, if InLeapYear y then 29 else 28, 31, 30, 31, 30, 31, 31, 30, 31, 30, 31]"

definition MakeDay :: "int \<Rightarrow> int \<Rightarrow> int \<Rightarrow> int" where
  "MakeDay y mo d = DayFromYear y + sum_list (take (nat (mo - 1)) (month_lengths y)) + (d - 1)"

definition MakeTime :: "int \<Rightarrow> int \<Rightarrow> int \<Rightarrow> int \<Rightarrow> int" where
  "MakeTime h mi sec ms = h * 3600000 + mi * 60000 + sec * 1000 + ms"

definition MakeDate :: "int \<Rightarrow> int \<Rightarrow> int" where
  "MakeDate day time = day * 86400000 + time"

definition Date_parse_iso :: "string \<Rightarrow> timestamp" where
  "Date_parse_iso s =
     (if length s = 24 \<and> s ! 4 = CHR ''-'' \<and> s ! 7 = CHR ''-'' \<and> s ! 10 = CHR ''T'' \<and>
         s ! 13 = CHR '':'' \<and> s ! 16 = CHR '':'' \<and> s ! 19 = CHR ''.'' \<and> s ! 23 = CHR ''Z''
      then
        (case decimal_from 0 (take 4 s) of None \<Rightarrow> NaN | Some y \<Rightarrow>
        (case decimal_from 0 (take 2 (drop 5 s)) of None \<Rightarrow> NaN | Some mo \<Rightarrow>
        (case decimal_from 0 (take 2 (drop 8 s)) of None \<Rightarrow> NaN | Some d \<Rightarrow>
        (case decimal_from 0 (take 2 (drop 11 s)) of None \<Rightarrow> NaN | Some h \<Rightarrow>
        (case decimal_from 0 (take 2 (drop 14 s)) of None \<Rightarrow> NaN | Some mi \<Rightarrow>
        (case decimal_from 0 (take 2 (drop 17 s)) of None \<Rightarrow> NaN | Some sec \<Rightarrow>
        (case decimal_from 0 (take 3 (drop 20 s)) of None \<Rightarrow> NaN | Some ms \<Rightarrow>
           if 1 \<le> mo \<and> mo \<le> 12 \<and> 1 \<le> d \<and> d \<le> 31 \<and>
              (h \<le> 23 \<or> (h = 24 \<and> mi = 0 \<and> sec = 0 \<and> ms = 0)) \<and> mi \<le> 59 \<and> sec \<le> 59
           then Millis (MakeDate (MakeDay y mo d) (MakeTime h mi sec ms))
           else NaN)))))))
      else NaN)"

section \<open>Example objects\<close>

text \<open>
  A message sent through a webhook in channel \<open>C1\<close> of server \<open>S1\<close>, a client whose
  caches hold the user, the member, the channel and the server of that message (and
  a member and a server under the empty server id), and a state with that message
  and that client.
\<close>

definition example_message :: "(unit, unit) Message" where
  "example_message =
     \<lparr>client = 0, id_Base = ''M1'', channelId = ''C1'', serverId = Some ''S1'',
      groupId = None, msg_type = Default, content = ''hello'', mentions = None,
      replyMessageIds = [], isPrivate = False, isSilent = False, createdById = ''U1'',
      isReply = False, createdByWebhookId = Some ''W1'',
      createdAt_ms = Millis 1640995200000, updatedAt_ms = None, deleted = False,
      deletedAt_ms = None, embeds = []\<rparr>"

definition example_client :: Client where
  "example_client =
     \<lparr>users_cache = [''U1'' \<mapsto> 10],
      members_cache = [buildMemberKey ''S1'' ''W1'' \<mapsto> 11, buildMemberKey [] ''W1'' \<mapsto> 15],
      channels_cache = [''C1'' \<mapsto> 12],
      servers_cache = [''S1'' \<mapsto> 13, [] \<mapsto> 14]\<rparr>"

definition example_world :: "(unit, unit, string) world" where
  "example_world =
     \<lparr>messages = (\<lambda>_. example_message), clients = (\<lambda>_. example_client), outbox = []\<rparr>"

text \<open>
  The payload with none of the five keys.
\<close>

definition no_keys :: "(unit, unit) payload" where
  "no_keys =
     \<lparr>p_content = Absent, p_mentions = Absent, p_updatedAt = Absent,
      p_deletedAt = None, p_embeds = Absent\<rparr>"

text \<open>
  A payload with the keys \<open>id\<close> and \<open>channelId\<close> and none of the five keys that
  \<open>_update\<close> reads.
\<close>

record ('mn, 'ep) identified_payload = "('mn, 'ep) payload" +
  p_id :: string
  p_channelId :: string

definition identity_only :: "(unit, unit) identified_payload" where
  "identity_only =
     \<lparr>p_content = Absent, p_mentions = Absent, p_updatedAt = Absent,
      p_deletedAt = None, p_embeds = Absent, p_id = ''M1'', p_channelId = ''C1''\<rparr>"

text \<open>
  Two deletion events for the same message, a day apart.
\<close>

definition deletion_1 :: "(unit, unit) payload" where
  "deletion_1 = no_keys\<lparr>p_deletedAt := Some ''2022-01-01T00:00:00.000Z''\<rparr>"

definition deletion_2 :: "(unit, unit) payload" where
  "deletion_2 = no_keys\<lparr>p_deletedAt := Some ''2022-01-02T00:00:00.000Z''\<rparr>"

text \<open>
  The example message with the empty string as its server id, and the state that
  holds it.
\<close>

definition empty_server_message :: "(unit, unit) Message" where
  "empty_server_message = example_message\<lparr>serverId := Some []\<rparr>"

definition empty_server_world :: "(unit, unit, string) world" where
  "empty_server_world = example_world\<lparr>messages := (\<lambda>_. empty_server_message)\<rparr>"

section \<open>What \<open>_update\<close> does to each field\<close>

text \<open>
  The lemmas of this section are shared by the theorems on the claims.
\<close>

lemma update_Message_returns_this:
  "fst (update_Message P this data w) = this"
  by (simp add: update_Message_def Let_def)

lemma update_Message_other_objects:
  "r \<noteq> this \<Longrightarrow> messages (snd (update_Message P this data w)) r = messages w r"
  by (simp add: update_Message_def Let_def)

lemma update_Message_clients:
  "clients (snd (update_Message P this data w)) = clients w"
  by (simp add: update_Message_def Let_def)

lemma update_Message_outbox:
  "outbox (snd (update_Message P this data w)) = outbox w"
  by (simp add: update_Message_def Let_def)

lemma update_Message_content:
  "content (messages (snd (update_Message P this data w)) this) =
     (case p_content data of Present c \<Rightarrow> c | _ \<Rightarrow> content (messages w this))"
  by (simp add: update_Message_def Let_def split: entry.split option.split)

lemma update_Message_updatedAt:
  "updatedAt_ms (messages (snd (update_Message P this data w)) this) =
     (case p_updatedAt data of
        Absent \<Rightarrow> updatedAt_ms (messages w this)
      | Undefined \<Rightarrow> None
      | Present s \<Rightarrow> if truthy s then Some (P s) else None)"
  by (auto simp: update_Message_def Let_def split: entry.splits option.splits)

lemma update_Message_deleted:
  "deleted (messages (snd (update_Message P this data w)) this) =
     (p_deletedAt data \<noteq> None \<or> deleted (messages w this))"
  by (auto simp: update_Message_def Let_def split: entry.splits option.splits)

lemma update_Message_deletedAt:
  "deletedAt_ms (messages (snd (update_Message P this data w)) this) =
     (case p_deletedAt data of
        None \<Rightarrow> deletedAt_ms (messages w this)
      | Some s \<Rightarrow> Some (P s))"
  by (auto simp: update_Message_def Let_def split: entry.splits option.splits)

lemma update_Message_no_keys:
  assumes "p_content data = Absent" "p_mentions data = Absent" "p_updatedAt data = Absent"
    "p_deletedAt data = None" "p_embeds data = Absent"
  shows "snd (update_Message P this data w) = w"
  using assms by (simp add: update_Message_def Let_def)

lemma update_Message_keeps_deleted:
  "deleted (messages w this) \<Longrightarrow> deleted (messages (snd (update_Message P r d w)) this)"
  by (cases "r = this") (simp_all add: update_Message_deleted update_Message_other_objects)

lemma apply_updates_keeps_deleted:
  "deleted (messages w this) \<Longrightarrow> deleted (messages (apply_updates P evs w) this)"
proof (induction evs arbitrary: w)
  case Nil
  then show ?case by simp
next
  case (Cons ev evs)
  obtain r d where ev: "ev = (r, d)" by (cases ev)
  from Cons.prems have "deleted (messages (snd (update_Message P r d w)) this)"
    by (rule update_Message_keeps_deleted)
  then show ?case unfolding ev by (simp add: Cons.IH)
qed

lemma apply_updates_keeps_deletedAt:
  "\<forall>(r, d) \<in> set evs. r = this \<longrightarrow> p_deletedAt d = None \<Longrightarrow>
     deletedAt_ms (messages (apply_updates P evs w) this) = deletedAt_ms (messages w this)"
proof (induction evs arbitrary: w)
  case Nil
  then show ?case by simp
next
  case (Cons ev evs)
  obtain r d where ev: "ev = (r, d)" by (cases ev)
  have step: "deletedAt_ms (messages (snd (update_Message P r d w)) this) = deletedAt_ms (messages w this)"
  proof (cases "r = this")
    case True
    with Cons.prems ev have "p_deletedAt d = None" by simp
    with True show ?thesis by (simp add: update_Message_deletedAt)
  next
    case False
    then show ?thesis by (simp add: update_Message_other_objects)
  qed
  from Cons.prems have "\<forall>(r, d) \<in> set evs. r = this \<longrightarrow> p_deletedAt d = None" by simp
  then show ?case unfolding ev by (simp add: Cons.IH step)
qed

text \<open>
  What \<open>_update\<close> does to the objects depends on the objects only, and so for every
  sequence of update events.
\<close>

lemma update_Message_messages_cong:
  "messages w1 = messages w2 \<Longrightarrow>
     messages (snd (update_Message P r d w1)) = messages (snd (update_Message P r d w2))"
  by (simp add: update_Message_def Let_def)

lemma apply_updates_messages_cong:
  "messages w1 = messages w2 \<Longrightarrow>
     messages (apply_updates P evs w1) = messages (apply_updates P evs w2)"
proof (induction evs arbitrary: w1 w2)
  case Nil
  then show ?case by simp
next
  case (Cons ev evs)
  obtain r d where ev: "ev = (r, d)" by (cases ev)
  from Cons.prems
  have "messages (snd (update_Message P r d w1)) = messages (snd (update_Message P r d w2))"
    by (rule update_Message_messages_cong)
  then show ?case unfolding ev by (simp add: Cons.IH)
qed

text \<open>
  \<open>edit\<close> with the manager of the spec, and the value of the future of \<open>edit\<close> with
  any manager.
\<close>

lemma edit_manager_update:
  "edit (manager_update settles) this c w =
     (then_promise (\<lambda>_. this) settles,
      w\<lparr>outbox := outbox w @
        [UpdateMessage (channelId (messages w this)) (id_Base (messages w this)) c]\<rparr>)"
  by (simp add: edit_def manager_update_def Let_def)

lemma edit_fulfilled_value:
  "fst (edit upd this c w) = Fulfilled r \<Longrightarrow> r = this"
proof -
  obtain p w' where call: "upd (client (messages w this)) (channelId (messages w this))
      (id_Base (messages w this)) c w = (p, w')"
    by (cases "upd (client (messages w this)) (channelId (messages w this))
      (id_Base (messages w this)) c w")
  then have result: "fst (edit upd this c w) = then_promise (\<lambda>_. this) p"
    by (simp add: edit_def Let_def)
  assume "fst (edit upd this c w) = Fulfilled r"
  with result show "r = this"
    by (cases p) simp_all
qed

section \<open>The claims\<close>

subsection \<open>C1: the content is replaced by presence of the key\<close>

text \<open>
  C1. For every message and every partial payload: when the payload has the key
  \<open>content\<close> with a value that is not \<open>undefined\<close>, the content after \<open>_update\<close> is that
  value, the empty string included; when the payload lacks the key, or has it with
  the value \<open>undefined\<close>, the content is unchanged.
\<close>

theorem update_content_by_presence:
  "(p_content data = Present c \<longrightarrow>
      content (messages (snd (update_Message P this data w)) this) = c) \<and>
   (p_content data = Absent \<or> p_content data = Undefined \<longrightarrow>
      content (messages (snd (update_Message P this data w)) this) = content (messages w this))"
  by (auto simp: update_Message_content)

text \<open>
  On the example message, whose content is \<open>hello\<close>: \<open>{content: ""}\<close> empties the
  content, \<open>{}\<close> and \<open>{content: undefined}\<close> keep it.
\<close>

theorem update_content_by_presence_witness:
  "p_content (no_keys\<lparr>p_content := Present []\<rparr>) = Present [] \<and>
   content (messages example_world 0) = ''hello'' \<and>
   content (messages (snd (update_Message Date_parse_iso 0
      (no_keys\<lparr>p_content := Present []\<rparr>) example_world)) 0) = [] \<and>
   p_content no_keys = Absent \<and>
   content (messages (snd (update_Message Date_parse_iso 0 no_keys example_world)) 0) = ''hello'' \<and>
   p_content (no_keys\<lparr>p_content := Undefined\<rparr>) = Undefined \<and>
   content (messages (snd (update_Message Date_parse_iso 0
      (no_keys\<lparr>p_content := Undefined\<rparr>) example_world)) 0) = ''hello''"
  using update_content_by_presence [of "no_keys\<lparr>p_content := Present []\<rparr>" "[]"
      Date_parse_iso 0 example_world]
    update_content_by_presence [of no_keys "[]" Date_parse_iso 0 example_world]
    update_content_by_presence [of "no_keys\<lparr>p_content := Undefined\<rparr>" "[]"
      Date_parse_iso 0 example_world]
  by (simp add: no_keys_def example_world_def example_message_def)

subsection \<open>C2: the flag \<open>deleted\<close> is a one-way latch\<close>

text \<open>
  C2. Once \<open>_update\<close> has been applied to a message with a payload that has the key
  \<open>deletedAt\<close>, \<open>deleted\<close> is true, and it is still true after every later sequence of
  updates (to this object or to any other, whether or not they have the key, so in
  particular after those that lack it). No operation takes \<open>deleted\<close> from true back
  to false: where it is true before an update, a sequence of updates or a call of a
  relationship accessor, on this object or on any other, it is true after.
\<close>

theorem deleted_is_a_latch:
  "(p_deletedAt data \<noteq> None \<longrightarrow>
      deleted (messages (snd (update_Message P this data w)) this) \<and>
      deleted (messages (apply_updates P evs (snd (update_Message P this data w))) this)) \<and>
   (deleted (messages w this) \<longrightarrow>
      deleted (messages (snd (update_Message P r d w)) this) \<and>
      deleted (messages (apply_updates P evs w) this) \<and>
      deleted (messages (snd (author r w)) this) \<and>
      deleted (messages (snd (member_Message bmk r w)) this) \<and>
      deleted (messages (snd (channel r w)) this) \<and>
      deleted (messages (snd (server r w)) this))"
proof -
  have now: "p_deletedAt data \<noteq> None \<Longrightarrow>
      deleted (messages (snd (update_Message P this data w)) this)"
    by (simp add: update_Message_deleted)
  have reads: "snd (author r w) = w" "snd (member_Message bmk r w) = w"
    "snd (channel r w) = w" "snd (server r w) = w"
    by (simp_all add: author_def member_Message_def channel_def server_def Let_def)
  show ?thesis
    unfolding reads
    using now apply_updates_keeps_deleted update_Message_keeps_deleted by blast
qed

text \<open>
  The example message is not deleted. After the first deletion event it is, and it
  still is after an edit of the content and an empty update.
\<close>

theorem deleted_is_a_latch_witness:
  "p_deletedAt deletion_1 \<noteq> None \<and>
   \<not> deleted (messages example_world 0) \<and>
   deleted (messages (snd (update_Message Date_parse_iso 0 deletion_1 example_world)) 0) \<and>
   deleted (messages (apply_updates Date_parse_iso
      [(0, no_keys\<lparr>p_content := Present ''edited''\<rparr>), (0, no_keys)]
      (snd (update_Message Date_parse_iso 0 deletion_1 example_world))) 0) \<and>
   deleted (messages (snd (update_Message Date_parse_iso 0 no_keys
      (snd (update_Message Date_parse_iso 0 deletion_1 example_world)))) 0)"
proof -
  have key: "p_deletedAt deletion_1 \<noteq> None"
    by (simp add: deletion_1_def no_keys_def)
  have fresh: "\<not> deleted (messages example_world 0)"
    by (simp add: example_world_def example_message_def)
  note first = deleted_is_a_latch [where data = deletion_1 and P = Date_parse_iso
      and this = 0 and w = example_world and r = 0 and d = no_keys and bmk = buildMemberKey
      and evs = "[(0, no_keys\<lparr>p_content := Present ''edited''\<rparr>), (0, no_keys)]"]
  from key first
  have after: "deleted (messages (snd (update_Message Date_parse_iso 0 deletion_1 example_world)) 0)"
    by blast
  note second = deleted_is_a_latch [where data = deletion_1 and P = Date_parse_iso
      and this = 0 and w = "snd (update_Message Date_parse_iso 0 deletion_1 example_world)"
      and r = 0 and d = no_keys and evs = "[]" and bmk = buildMemberKey]
  from key fresh first after second show ?thesis by blast
qed

subsection \<open>C3: the deletion timestamp\<close>

text \<open>
  C3 says that the deletion timestamp is set at most once, and that a later update
  that has the key \<open>deletedAt\<close> again, with another value, does not change it. The
  method assigns \<open>_deletedAt\<close> on every payload that has the key: of two deletion
  events a day apart, the second replaces the timestamp of the first.
\<close>

theorem deletedAt_overwritten_counterexample:
  "deletedAt_ms (messages (snd (update_Message Date_parse_iso 0 deletion_1 example_world)) 0)
     = Some (Millis 1640995200000) \<and>
   deletedAt_ms (messages (snd (update_Message Date_parse_iso 0 deletion_2
      (snd (update_Message Date_parse_iso 0 deletion_1 example_world)))) 0)
     = Some (Millis 1641081600000) \<and>
   deletedAt_ms (messages (snd (update_Message Date_parse_iso 0 deletion_2
      (snd (update_Message Date_parse_iso 0 deletion_1 example_world)))) 0)
     \<noteq> deletedAt_ms (messages (snd (update_Message Date_parse_iso 0 deletion_1 example_world)) 0)"
  by (simp add: update_Message_deletedAt deletion_1_def deletion_2_def no_keys_def
      Date_parse_iso_def digit_val_def MakeDate_def MakeDay_def MakeTime_def
      DayFromYear_def month_lengths_def InLeapYear_def)

text \<open>
  C3 as amended. An update that lacks the key \<open>deletedAt\<close> does not change the
  recorded deletion timestamp, and neither does any sequence of updates in which
  those delivered to this message all lack the key. An update that has the key
  records the parsed value of that key, whatever was recorded before.
\<close>

theorem deletedAt_changes_with_the_key_only:
  "(p_deletedAt data = None \<longrightarrow>
      deletedAt_ms (messages (snd (update_Message P this data w)) this)
        = deletedAt_ms (messages w this)) \<and>
   ((\<forall>(r, d) \<in> set evs. r = this \<longrightarrow> p_deletedAt d = None) \<longrightarrow>
      deletedAt_ms (messages (apply_updates P evs w) this) = deletedAt_ms (messages w this)) \<and>
   (p_deletedAt data = Some s \<longrightarrow>
      deletedAt_ms (messages (snd (update_Message P this data w)) this) = Some (P s))"
  by (simp add: update_Message_deletedAt apply_updates_keeps_deletedAt)

text \<open>
  After the first deletion event, an edit of the content and an empty update leave
  the timestamp of that event in place.
\<close>

theorem deletedAt_changes_with_the_key_only_witness:
  "p_deletedAt deletion_1 = Some ''2022-01-01T00:00:00.000Z'' \<and>
   deletedAt_ms (messages (snd (update_Message Date_parse_iso 0 deletion_1 example_world)) 0)
     = Some (Millis 1640995200000) \<and>
   p_deletedAt no_keys = None \<and>
   deletedAt_ms (messages (snd (update_Message Date_parse_iso 0 no_keys
      (snd (update_Message Date_parse_iso 0 deletion_1 example_world)))) 0)
     = Some (Millis 1640995200000) \<and>
   deletedAt_ms (messages (apply_updates Date_parse_iso
      [(0, no_keys\<lparr>p_content := Present ''edited''\<rparr>), (0, no_keys), (1, deletion_2)]
      (snd (update_Message Date_parse_iso 0 deletion_1 example_world))) 0)
     = Some (Millis 1640995200000)"
proof -
  have parsed: "Date_parse_iso ''2022-01-01T00:00:00.000Z'' = Millis 1640995200000"
    by (simp add: Date_parse_iso_def digit_val_def MakeDate_def MakeDay_def MakeTime_def
        DayFromYear_def month_lengths_def InLeapYear_def)
  have key: "p_deletedAt deletion_1 = Some ''2022-01-01T00:00:00.000Z''"
    by (simp add: deletion_1_def no_keys_def)
  have none: "p_deletedAt no_keys = None"
    by (simp add: no_keys_def)
  have lack: "\<forall>(r, d) \<in> set [(0, no_keys\<lparr>p_content := Present ''edited''\<rparr>), (0, no_keys),
      (1::nat, deletion_2)]. r = 0 \<longrightarrow> p_deletedAt d = None"
    by (simp add: no_keys_def)
  note first = deletedAt_changes_with_the_key_only [where data = deletion_1
      and P = Date_parse_iso and this = 0 and w = example_world and evs = "[]"
      and s = "''2022-01-01T00:00:00.000Z''"]
  note later = deletedAt_changes_with_the_key_only [where data = no_keys
      and P = Date_parse_iso and this = 0
      and w = "snd (update_Message Date_parse_iso 0 deletion_1 example_world)"
      and evs = "[(0, no_keys\<lparr>p_content := Present ''edited''\<rparr>), (0, no_keys), (1, deletion_2)]"
      and s = "[]"]
  from key first parsed
  have a: "deletedAt_ms (messages (snd (update_Message Date_parse_iso 0 deletion_1 example_world)) 0)
     = Some (Millis 1640995200000)"
    by simp
  from none later a
  have b: "deletedAt_ms (messages (snd (update_Message Date_parse_iso 0 no_keys
      (snd (update_Message Date_parse_iso 0 deletion_1 example_world)))) 0)
     = Some (Millis 1640995200000)"
    by simp
  from lack later a
  have c: "deletedAt_ms (messages (apply_updates Date_parse_iso
      [(0, no_keys\<lparr>p_content := Present ''edited''\<rparr>), (0, no_keys), (1, deletion_2)]
      (snd (update_Message Date_parse_iso 0 deletion_1 example_world))) 0)
     = Some (Millis 1640995200000)"
    by simp
  from key none a b c show ?thesis by simp
qed

subsection \<open>C4: the update timestamp\<close>

text \<open>
  C4. For every message and every partial payload: when the payload has the key
  \<open>updatedAt\<close>, the stored update timestamp after \<open>_update\<close> is the parsed value of
  the key where that value is truthy (a string that is not empty), and \<open>null\<close> where
  it is falsy (\<open>undefined\<close> or the empty string); when the payload lacks the key, the
  stored update timestamp is unchanged.
\<close>

theorem updatedAt_by_presence_and_truthiness:
  "(p_updatedAt data = Present s \<and> truthy s \<longrightarrow>
      updatedAt_ms (messages (snd (update_Message P this data w)) this) = Some (P s)) \<and>
   (p_updatedAt data = Undefined \<or> (p_updatedAt data = Present s \<and> \<not> truthy s) \<longrightarrow>
      updatedAt_ms (messages (snd (update_Message P this data w)) this) = None) \<and>
   (p_updatedAt data = Absent \<longrightarrow>
      updatedAt_ms (messages (snd (update_Message P this data w)) this)
        = updatedAt_ms (messages w this))"
  by (auto simp: update_Message_updatedAt)

text \<open>
  An update event sets the timestamp of the example message; after it, an empty
  update keeps the timestamp, and \<open>{updatedAt: ""}\<close> and \<open>{updatedAt: undefined}\<close> reset
  it to \<open>null\<close>.
\<close>

theorem updatedAt_by_presence_and_truthiness_witness:
  "truthy ''2022-01-02T00:00:00.000Z'' \<and>
   updatedAt_ms (messages (snd (update_Message Date_parse_iso 0
      (no_keys\<lparr>p_updatedAt := Present ''2022-01-02T00:00:00.000Z''\<rparr>) example_world)) 0)
     = Some (Millis 1641081600000) \<and>
   updatedAt_ms (messages (snd (update_Message Date_parse_iso 0 no_keys
      (snd (update_Message Date_parse_iso 0
        (no_keys\<lparr>p_updatedAt := Present ''2022-01-02T00:00:00.000Z''\<rparr>) example_world)))) 0)
     = Some (Millis 1641081600000) \<and>
   \<not> truthy [] \<and>
   updatedAt_ms (messages (snd (update_Message Date_parse_iso 0
      (no_keys\<lparr>p_updatedAt := Present []\<rparr>)
      (snd (update_Message Date_parse_iso 0
        (no_keys\<lparr>p_updatedAt := Present ''2022-01-02T00:00:00.000Z''\<rparr>) example_world)))) 0)
     = None \<and>
   updatedAt_ms (messages (snd (update_Message Date_parse_iso 0
      (no_keys\<lparr>p_updatedAt := Undefined\<rparr>)
      (snd (update_Message Date_parse_iso 0
        (no_keys\<lparr>p_updatedAt := Present ''2022-01-02T00:00:00.000Z''\<rparr>) example_world)))) 0)
     = None"
proof -
  have parsed: "Date_parse_iso ''2022-01-02T00:00:00.000Z'' = Millis 1641081600000"
    by (simp add: Date_parse_iso_def digit_val_def MakeDate_def MakeDay_def MakeTime_def
        DayFromYear_def month_lengths_def InLeapYear_def)
  define w1 where "w1 = snd (update_Message Date_parse_iso 0
      (no_keys\<lparr>p_updatedAt := Present ''2022-01-02T00:00:00.000Z''\<rparr>) example_world)"
  note set = updatedAt_by_presence_and_truthiness [where P = Date_parse_iso and this = 0
      and w = example_world and s = "''2022-01-02T00:00:00.000Z''"
      and data = "no_keys\<lparr>p_updatedAt := Present ''2022-01-02T00:00:00.000Z''\<rparr>"]
  note keep = updatedAt_by_presence_and_truthiness [where P = Date_parse_iso and this = 0
      and w = w1 and s = "[]" and data = no_keys]
  note empty = updatedAt_by_presence_and_truthiness [where P = Date_parse_iso and this = 0
      and w = w1 and s = "[]" and data = "no_keys\<lparr>p_updatedAt := Present []\<rparr>"]
  note undef = updatedAt_by_presence_and_truthiness [where P = Date_parse_iso and this = 0
      and w = w1 and s = "[]" and data = "no_keys\<lparr>p_updatedAt := Undefined\<rparr>"]
  from set parsed have a: "updatedAt_ms (messages w1 0) = Some (Millis 1641081600000)"
    by (simp add: w1_def truthy_def)
  from keep a have b: "updatedAt_ms (messages (snd (update_Message Date_parse_iso 0 no_keys w1)) 0)
      = Some (Millis 1641081600000)"
    by (simp add: no_keys_def)
  from empty have c: "updatedAt_ms (messages (snd (update_Message Date_parse_iso 0
      (no_keys\<lparr>p_updatedAt := Present []\<rparr>) w1)) 0) = None"
    by (simp add: truthy_def)
  from undef have d: "updatedAt_ms (messages (snd (update_Message Date_parse_iso 0
      (no_keys\<lparr>p_updatedAt := Undefined\<rparr>) w1)) 0) = None"
    by simp
  from a b c d show ?thesis
    unfolding w1_def by (simp add: truthy_def)
qed

subsection \<open>C5: an update with none of the keys, and the result of every update\<close>

text \<open>
  C5. For every message, \<open>_update\<close> with a payload that has none of the keys
  \<open>content\<close>, \<open>mentions\<close>, \<open>updatedAt\<close>, \<open>deletedAt\<close> and \<open>embeds\<close> (whatever other keys it
  has) leaves the state as it was, so every field of every object; and for every
  payload \<open>_update\<close> returns the object it was called on.
\<close>

theorem update_without_keys_changes_nothing:
  "fst (update_Message P this data w) = this \<and>
   (p_content data = Absent \<and> p_mentions data = Absent \<and> p_updatedAt data = Absent \<and>
    p_deletedAt data = None \<and> p_embeds data = Absent \<longrightarrow>
      snd (update_Message P this data w) = w)"
  by (simp add: update_Message_returns_this update_Message_no_keys)

text \<open>
  On the example state, the empty payload and the payload with the keys \<open>id\<close> and
  \<open>channelId\<close> only change nothing, and an update with the key \<open>content\<close> returns
  the message it was applied to as well.
\<close>

theorem update_without_keys_changes_nothing_witness:
  "p_content no_keys = Absent \<and> p_mentions no_keys = Absent \<and> p_updatedAt no_keys = Absent \<and>
   p_deletedAt no_keys = None \<and> p_embeds no_keys = Absent \<and>
   update_Message Date_parse_iso 0 no_keys example_world = (0, example_world) \<and>
   update_Message Date_parse_iso 0 identity_only example_world = (0, example_world) \<and>
   fst (update_Message Date_parse_iso 0 (no_keys\<lparr>p_content := Present ''edited''\<rparr>)
     example_world) = 0"
  using update_without_keys_changes_nothing [where P = Date_parse_iso and this = 0
      and data = no_keys and w = example_world]
    update_without_keys_changes_nothing [where P = Date_parse_iso and this = 0
      and data = "no_keys\<lparr>p_content := Present ''edited''\<rparr>" and w = example_world]
    update_without_keys_changes_nothing [where P = Date_parse_iso and this = 0
      and data = identity_only and w = example_world]
  by (simp add: no_keys_def identity_only_def prod_eq_iff)

subsection \<open>C6: the author id\<close>

text \<open>
  C6. For every message, \<open>authorId\<close> is \<open>createdByWebhookId\<close> where that field is not
  \<open>null\<close>, and \<open>createdById\<close> otherwise.
\<close>

theorem authorId_prefers_the_webhook:
  "(createdByWebhookId m = Some wid \<longrightarrow> authorId m = wid) \<and>
   (createdByWebhookId m = None \<longrightarrow> authorId m = createdById m)"
  by (simp add: authorId_def)

text \<open>
  With \<open>createdById = "U1"\<close> and \<open>createdByWebhookId = "W1"\<close> the author id is \<open>"W1"\<close>;
  with \<open>createdByWebhookId = null\<close> it is \<open>"U1"\<close>.
\<close>

theorem authorId_prefers_the_webhook_witness:
  "createdById example_message = ''U1'' \<and>
   createdByWebhookId example_message = Some ''W1'' \<and>
   authorId example_message = ''W1'' \<and>
   createdByWebhookId (example_message\<lparr>createdByWebhookId := None\<rparr>) = None \<and>
   authorId (example_message\<lparr>createdByWebhookId := None\<rparr>) = ''U1''"
  using authorId_prefers_the_webhook [where m = example_message and wid = "''W1''"]
    authorId_prefers_the_webhook [where m = "example_message\<lparr>createdByWebhookId := None\<rparr>"
      and wid = "[]"]
  by (simp add: example_message_def)

subsection \<open>C7: the url\<close>

text \<open>
  C7 says that \<open>url\<close> is the empty string when \<open>serverId\<close> is \<open>null\<close>, and otherwise a
  string that contains the channel id and the message id. The guard of the accessor
  is \<open>!this.serverId\<close>, which holds of the empty string too: a message whose server id
  is the empty string, not \<open>null\<close>, has the empty url, which does not contain its
  channel id \<open>C1\<close>.
\<close>

theorem url_of_empty_serverId_counterexample:
  "serverId empty_server_message \<noteq> None \<and>
   channelId empty_server_message = ''C1'' \<and>
   url empty_server_message = [] \<and>
   \<not> sublist (channelId empty_server_message) (url empty_server_message)"
  by (simp add: empty_server_message_def example_message_def url_def truthy_def)

text \<open>
  C7 as amended. For every message, \<open>url\<close> is the empty string when \<open>serverId\<close> is
  \<open>null\<close> or the empty string; otherwise it is
  \<open>https://www.guilded.gg/chat/<channelId>?messageId=<id>\<close>, which contains the
  channel id, the message id, and \<open>/chat/<channelId>?messageId=<id>\<close>.
\<close>

theorem url_by_serverId:
  "(serverId m = None \<or> serverId m = Some [] \<longrightarrow> url m = []) \<and>
   (serverId m = Some s \<and> s \<noteq> [] \<longrightarrow>
      url m = ''https://www.guilded.gg/chat/'' @ channelId m @ ''?messageId='' @ id_Base m \<and>
      sublist (channelId m) (url m) \<and>
      sublist (id_Base m) (url m) \<and>
      sublist (''/chat/'' @ channelId m @ ''?messageId='' @ id_Base m) (url m))"
proof -
  have falsy: "serverId m = None \<or> serverId m = Some [] \<Longrightarrow> url m = []"
    by (auto simp: url_def truthy_def)
  have shape: "url m = ''https://www.guilded.gg/chat/'' @ channelId m @ ''?messageId='' @ id_Base m"
    if "serverId m = Some s" "s \<noteq> []"
    using that by (simp add: url_def truthy_def)
  have chan: "sublist (channelId m)
      (''https://www.guilded.gg/chat/'' @ channelId m @ (''?messageId='' @ id_Base m))"
    by (rule sublist_appendI)
  have ident: "sublist (id_Base m)
      ((''https://www.guilded.gg/chat/'' @ channelId m @ ''?messageId='') @ id_Base m @ [])"
    by (rule sublist_appendI)
  have path: "sublist (''/chat/'' @ channelId m @ ''?messageId='' @ id_Base m)
      (''https://www.guilded.gg'' @ (''/chat/'' @ channelId m @ ''?messageId='' @ id_Base m) @ [])"
    by (rule sublist_appendI)
  from chan ident path shape falsy show ?thesis by simp
qed

text \<open>
  With \<open>channelId = "C1"\<close>, \<open>id = "M1"\<close> and \<open>serverId = "S1"\<close> the url contains
  \<open>/chat/C1?messageId=M1\<close>; with \<open>serverId = null\<close> it is the empty string.
\<close>

theorem url_by_serverId_witness:
  "serverId example_message = Some ''S1'' \<and> ''S1'' \<noteq> [] \<and>
   url example_message = ''https://www.guilded.gg/chat/C1?messageId=M1'' \<and>
   sublist ''/chat/C1?messageId=M1'' (url example_message) \<and>
   sublist ''C1'' (url example_message) \<and>
   sublist ''M1'' (url example_message) \<and>
   serverId (example_message\<lparr>serverId := None\<rparr>) = None \<and>
   url (example_message\<lparr>serverId := None\<rparr>) = []"
proof -
  have sid: "serverId example_message = Some ''S1''"
    and chan: "channelId example_message = ''C1''"
    and ident: "id_Base example_message = ''M1''"
    and none: "serverId (example_message\<lparr>serverId := None\<rparr>) = None"
    by (simp_all add: example_message_def)
  note served = url_by_serverId [where m = example_message and s = "''S1''"]
  note unserved = url_by_serverId [where m = "example_message\<lparr>serverId := None\<rparr>"
      and s = "[]"]
  have ne: "''S1'' \<noteq> []"
    by simp
  from sid ne served
  have shape: "url example_message =
      ''https://www.guilded.gg/chat/'' @ channelId example_message @ ''?messageId='' @
        id_Base example_message"
    and has_chan: "sublist (channelId example_message) (url example_message)"
    and has_id: "sublist (id_Base example_message) (url example_message)"
    and has_path: "sublist (''/chat/'' @ channelId example_message @ ''?messageId='' @
        id_Base example_message) (url example_message)"
    by blast+
  from shape have a: "url example_message = ''https://www.guilded.gg/chat/C1?messageId=M1''"
    by (simp add: chan ident)
  from has_path have b: "sublist ''/chat/C1?messageId=M1'' (url example_message)"
    by (simp only: chan ident append.simps)
  from has_chan have c: "sublist ''C1'' (url example_message)"
    by (simp only: chan)
  from has_id have d: "sublist ''M1'' (url example_message)"
    by (simp only: ident)
  from none unserved have e: "url (example_message\<lparr>serverId := None\<rparr>) = []"
    by blast
  from sid ne a b c d none e show ?thesis by blast
qed

subsection \<open>C8: the relationship accessors\<close>

text \<open>
  C8 says that \<open>author\<close>, \<open>member\<close>, \<open>channel\<close> and \<open>server\<close> return the cached object
  whenever the cache has an entry for the derived key. \<open>member\<close> and \<open>server\<close> test
  \<open>this.serverId\<close> for truthiness before they look anything up: for a message whose
  server id is the empty string, not \<open>null\<close>, \<open>server\<close> returns \<open>null\<close> although the
  cache of servers has an entry for that id.
\<close>

theorem server_of_empty_serverId_counterexample:
  "serverId (messages empty_server_world 0) = Some [] \<and>
   servers_cache (clients empty_server_world (client (messages empty_server_world 0))) []
     = Some 14 \<and>
   fst (server 0 empty_server_world) = None"
  by (simp add: server_def truthy_def empty_server_world_def empty_server_message_def
      example_world_def example_message_def example_client_def)

text \<open>
  C8 as amended. For every message, no relationship accessor changes the state: no
  object and no cache is written and no request is handed to the transport.
  \<open>author\<close> returns the entry of the cache of users at \<open>createdById\<close>, and \<open>channel\<close>
  the entry of the cache of channels at \<open>channelId\<close>: \<open>null\<close> where the cache has no
  entry, and the cached object itself where it has one. When \<open>serverId\<close> is neither
  \<open>null\<close> nor the empty string, \<open>member\<close> returns in the same way the entry of the
  cache of members at \<open>buildMemberKey(serverId, authorId)\<close>, and \<open>server\<close> the entry
  of the cache of servers at \<open>serverId\<close>. When \<open>serverId\<close> is \<open>null\<close> or the empty string,
  \<open>member\<close> and \<open>server\<close> return \<open>null\<close>.
\<close>

theorem accessors_read_the_caches:
  "snd (author this w) = w \<and> snd (member_Message bmk this w) = w \<and>
   snd (channel this w) = w \<and> snd (server this w) = w \<and>
   fst (author this w)
     = users_cache (clients w (client (messages w this))) (createdById (messages w this)) \<and>
   fst (channel this w)
     = channels_cache (clients w (client (messages w this))) (channelId (messages w this)) \<and>
   (serverId (messages w this) = Some s \<and> s \<noteq> [] \<longrightarrow>
      fst (member_Message bmk this w)
        = members_cache (clients w (client (messages w this)))
            (bmk s (authorId (messages w this))) \<and>
      fst (server this w) = servers_cache (clients w (client (messages w this))) s) \<and>
   (serverId (messages w this) = None \<or> serverId (messages w this) = Some [] \<longrightarrow>
      fst (member_Message bmk this w) = None \<and> fst (server this w) = None)"
  by (auto simp: author_def member_Message_def channel_def server_def Let_def truthy_def)

text \<open>
  On the example state the four accessors return the four cached objects; with an
  empty cache of users, \<open>author\<close> returns \<open>null\<close>; with \<open>serverId = null\<close>, \<open>member\<close> and
  \<open>server\<close> return \<open>null\<close>.
\<close>

theorem accessors_read_the_caches_witness:
  "serverId (messages example_world 0) = Some ''S1'' \<and> ''S1'' \<noteq> [] \<and>
   author 0 example_world = (Some 10, example_world) \<and>
   member_Message buildMemberKey 0 example_world = (Some 11, example_world) \<and>
   channel 0 example_world = (Some 12, example_world) \<and>
   server 0 example_world = (Some 13, example_world) \<and>
   fst (author 0 (example_world\<lparr>clients := (\<lambda>_. example_client\<lparr>users_cache := Map.empty\<rparr>)\<rparr>))
     = None \<and>
   serverId (messages (example_world\<lparr>messages := (\<lambda>_. example_message\<lparr>serverId := None\<rparr>)\<rparr>) 0)
     = None \<and>
   fst (member_Message buildMemberKey 0
     (example_world\<lparr>messages := (\<lambda>_. example_message\<lparr>serverId := None\<rparr>)\<rparr>)) = None \<and>
   fst (server 0 (example_world\<lparr>messages := (\<lambda>_. example_message\<lparr>serverId := None\<rparr>)\<rparr>))
     = None"
  using accessors_read_the_caches [where this = 0 and w = example_world
      and bmk = buildMemberKey and s = "''S1''"]
    accessors_read_the_caches [where this = 0 and bmk = buildMemberKey and s = "[]"
      and w = "example_world\<lparr>clients := (\<lambda>_. example_client\<lparr>users_cache := Map.empty\<rparr>)\<rparr>"]
    accessors_read_the_caches [where this = 0 and bmk = buildMemberKey and s = "[]"
      and w = "example_world\<lparr>messages := (\<lambda>_. example_message\<lparr>serverId := None\<rparr>)\<rparr>"]
  by (simp add: prod_eq_iff example_world_def example_message_def example_client_def
      buildMemberKey_def authorId_def)

subsection \<open>C9: \<open>edit\<close> changes no local state\<close>

text \<open>
  C9. For every message and every new content, with the manager's \<open>update\<close> as the
  spec describes it: the call of \<open>edit\<close> leaves every message object as it was, the
  content of this message in particular, and every client; all it does is to hand
  one request, for this channel, this message and the new content, to the transport.
  The local state changes only when a later update event is applied through
  \<open>_update\<close>: after the call, every sequence of update events leaves the objects as it
  would have left them without the call, and an update event on this message gives
  the content of its payload, or the content from before the call where its payload
  has none. The future that \<open>edit\<close> returns settles as the manager's future does, with
  the message that \<open>edit\<close> was called on in place of the value; and with any manager
  at all, the future of \<open>edit\<close> is never fulfilled with anything but that message.
\<close>

theorem edit_changes_no_local_state:
  "messages (snd (edit (manager_update settles) this c w)) = messages w \<and>
   content (messages (snd (edit (manager_update settles) this c w)) this)
     = content (messages w this) \<and>
   clients (snd (edit (manager_update settles) this c w)) = clients w \<and>
   outbox (snd (edit (manager_update settles) this c w))
     = outbox w @ [UpdateMessage (channelId (messages w this)) (id_Base (messages w this)) c] \<and>
   messages (apply_updates P evs (snd (edit (manager_update settles) this c w)))
     = messages (apply_updates P evs w) \<and>
   content (messages (snd (update_Message P this data
       (snd (edit (manager_update settles) this c w)))) this)
     = (case p_content data of Present v \<Rightarrow> v | _ \<Rightarrow> content (messages w this)) \<and>
   fst (edit (manager_update settles) this c w) = then_promise (\<lambda>_. this) settles \<and>
   (settles = Fulfilled x \<longrightarrow> fst (edit (manager_update settles) this c w) = Fulfilled this) \<and>
   (fst (edit upd this c w) = Fulfilled r \<longrightarrow> r = this)"
proof -
  let ?w' = "snd (edit (manager_update settles) this c w)"
  have store: "messages ?w' = messages w"
    by (simp add: edit_manager_update)
  have later: "messages (apply_updates P evs ?w') = messages (apply_updates P evs w)"
    using store by (rule apply_updates_messages_cong)
  have event: "content (messages (snd (update_Message P this data ?w')) this)
      = (case p_content data of Present v \<Rightarrow> v | _ \<Rightarrow> content (messages w this))"
    by (simp add: update_Message_content store split: entry.split)
  have future: "fst (edit (manager_update settles) this c w) = then_promise (\<lambda>_. this) settles"
    by (simp add: edit_manager_update)
  have fulfilled: "settles = Fulfilled x \<Longrightarrow>
      fst (edit (manager_update settles) this c w) = Fulfilled this"
    by (simp add: edit_manager_update)
  have rest: "clients ?w' = clients w"
    "outbox ?w' = outbox w @
      [UpdateMessage (channelId (messages w this)) (id_Base (messages w this)) c]"
    by (simp_all add: edit_manager_update)
  from store later event future fulfilled rest edit_fulfilled_value [of upd this c w r]
  show ?thesis by simp
qed

text \<open>
  On the example state, with a transport that fulfils the request: the objects are
  as before and the content is still \<open>hello\<close>, the one request is in the outbox, the
  future is fulfilled with the message at address 0, and the update event that
  follows sets the content to \<open>new\<close>.
\<close>

theorem edit_changes_no_local_state_witness:
  "content (messages example_world 0) = ''hello'' \<and>
   messages (snd (edit (manager_update (Fulfilled ())) 0 ''new'' example_world))
     = messages example_world \<and>
   content (messages (snd (edit (manager_update (Fulfilled ())) 0 ''new'' example_world)) 0)
     = ''hello'' \<and>
   outbox (snd (edit (manager_update (Fulfilled ())) 0 ''new'' example_world))
     = [UpdateMessage ''C1'' ''M1'' ''new''] \<and>
   content (messages (snd (update_Message Date_parse_iso 0
       (no_keys\<lparr>p_content := Present ''new''\<rparr>)
       (snd (edit (manager_update (Fulfilled ())) 0 ''new'' example_world)))) 0) = ''new'' \<and>
   fst (edit (manager_update (Fulfilled ())) 0 ''new'' example_world) = Fulfilled 0"
  using edit_changes_no_local_state [where settles = "Fulfilled ()" and this = 0
      and c = "''new''" and w = example_world and x = "()" and r = 0
      and upd = "manager_update (Fulfilled ())" and P = Date_parse_iso and evs = "[]"
      and data = "no_keys\<lparr>p_content := Present ''new''\<rparr>"]
  by (simp add: example_world_def example_message_def no_keys_def)

subsection \<open>C10: the key of the member lookup\<close>

text \<open>
  C10 says that for every message with a server id that is not \<open>null\<close>, \<open>member\<close>
  looks the member up under the key built from the server id and the author id. For
  a message whose server id is the empty string, not \<open>null\<close>, \<open>member\<close> builds no key
  and looks nothing up: it returns \<open>null\<close> although the cache of members has an entry
  under the key of that server id and the author id.
\<close>

theorem member_of_empty_serverId_counterexample:
  "serverId (messages empty_server_world 0) = Some [] \<and>
   authorId (messages empty_server_world 0) = ''W1'' \<and>
   members_cache (clients empty_server_world (client (messages empty_server_world 0)))
     (buildMemberKey [] ''W1'') = Some 15 \<and>
   fst (member_Message buildMemberKey 0 empty_server_world) = None"
  by (simp add: member_Message_def truthy_def authorId_def buildMemberKey_def
      empty_server_world_def empty_server_message_def example_world_def example_message_def
      example_client_def)

text \<open>
  C10 as amended. For every message with a server id that is neither \<open>null\<close> nor the
  empty string, \<open>member\<close> returns the entry of the cache of members under
  \<open>buildMemberKey(serverId, authorId)\<close>; so for a message created by a webhook the
  user component of the key is the webhook id, not \<open>createdById\<close>.
\<close>

theorem member_key_is_built_from_authorId:
  "(serverId (messages w this) = Some s \<and> s \<noteq> [] \<longrightarrow>
      fst (member_Message bmk this w)
        = members_cache (clients w (client (messages w this)))
            (bmk s (authorId (messages w this)))) \<and>
   (serverId (messages w this) = Some s \<and> s \<noteq> [] \<and>
    createdByWebhookId (messages w this) = Some wid \<longrightarrow>
      fst (member_Message bmk this w)
        = members_cache (clients w (client (messages w this))) (bmk s wid))"
  by (auto simp: member_Message_def Let_def truthy_def authorId_def)

text \<open>
  The example message was created by the webhook \<open>W1\<close> in place of the user \<open>U1\<close>, in
  the server \<open>S1\<close>. The cache of members has an entry under the key of \<open>S1\<close> and \<open>W1\<close>
  and none under the key of \<open>S1\<close> and \<open>U1\<close>, and \<open>member\<close> returns that entry.
\<close>

theorem member_key_is_built_from_authorId_witness:
  "serverId (messages example_world 0) = Some ''S1'' \<and> ''S1'' \<noteq> [] \<and>
   createdByWebhookId (messages example_world 0) = Some ''W1'' \<and>
   createdById (messages example_world 0) = ''U1'' \<and>
   members_cache (clients example_world (client (messages example_world 0)))
     (buildMemberKey ''S1'' ''W1'') = Some 11 \<and>
   members_cache (clients example_world (client (messages example_world 0)))
     (buildMemberKey ''S1'' ''U1'') = None \<and>
   fst (member_Message buildMemberKey 0 example_world) = Some 11"
  using member_key_is_built_from_authorId [where w = example_world and this = 0
      and s = "''S1''" and wid = "''W1''" and bmk = buildMemberKey]
  by (simp add: example_world_def example_message_def example_client_def buildMemberKey_def
      authorId_def)

end
